theory Spec2Isabelle
  imports Complex_Main
begin

section \<open>JavaScript primitives used by the analysis engine\<close>

text \<open>
  JavaScript numbers are modelled as real numbers: every constant of the engine is a
  short decimal, and the properties below are about orderings and thresholds. A value
  that may be \<open>undefined\<close> or \<open>null\<close> is an \<open>option\<close>; a property read on
  \<open>undefined\<close> raises a TypeError, which is the value \<open>Inl TypeError\<close>.
\<close>

datatype js_error = TypeError

definition js_round :: "real \<Rightarrow> int" where
  \<comment> \<open>\<open>Math.round\<close>: the nearest integer, halves towards plus infinity.\<close>
  "js_round x = \<lfloor>x + 1 / 2\<rfloor>"

definition num_or :: "real option \<Rightarrow> real \<Rightarrow> real" where
  \<comment> \<open>\<open>v || d\<close> on a number that may be undefined: \<open>undefined\<close> and \<open>0\<close> are falsy.\<close>
  "num_or v d = (case v of None \<Rightarrow> d | Some x \<Rightarrow> if x = 0 then d else x)"

definition map_or :: "(string \<times> int) list \<Rightarrow> string \<Rightarrow> int \<Rightarrow> int" where
  \<comment> \<open>\<open>table[key] || d\<close> on an object literal of numbers: a missing key and the entry
      \<open>0\<close> are both falsy.\<close>
  "map_or table k d = (case map_of table k of None \<Rightarrow> d | Some v \<Rightarrow> if v = 0 then d else v)"

definition undef_gt :: "real option \<Rightarrow> real \<Rightarrow> bool" where
  \<comment> \<open>\<open>v > c\<close>: a comparison with \<open>undefined\<close> is false.\<close>
  "undef_gt v c = (case v of None \<Rightarrow> False | Some x \<Rightarrow> x > c)"

definition undef_lt :: "real option \<Rightarrow> real \<Rightarrow> bool" where
  \<comment> \<open>\<open>v < c\<close>: a comparison with \<open>undefined\<close> is false.\<close>
  "undef_lt v c = (case v of None \<Rightarrow> False | Some x \<Rightarrow> x < c)"

section \<open>Feature encoders (mlPredictionService.js)\<close>

text \<open>
  An absent categorical field reaches an encoder as \<open>undefined\<close>, which JavaScript
  turns into the property key \<open>''undefined''\<close>; the model passes that string.
\<close>

definition getStatusValue :: "string \<Rightarrow> int" where
  "getStatusValue status =
     map_or [(''critical'', 0), (''low'', 1), (''moderate'', 2), (''good'', 3), (''excellent'', 4)]
       status 2"

definition getTrendValue :: "string \<Rightarrow> int" where
  "getTrendValue trend_name =
     map_or [(''falling'', - 1), (''stable'', 0), (''rising'', 1)] trend_name 0"

definition getSignificanceValue :: "string \<Rightarrow> int" where
  "getSignificanceValue sig =
     map_or [(''not_significant'', 0), (''marginally_significant'', 1), (''significant'', 2),
             (''very_significant'', 3), (''highly_significant'', 4)] sig 0"

definition getInfluenceValue :: "string \<Rightarrow> int" where
  "getInfluenceValue infl = map_or [(''low'', 1), (''medium'', 2), (''high'', 3)] infl 1"

definition getPermeabilityValue :: "string \<Rightarrow> int" where
  "getPermeabilityValue perm = map_or [(''low'', 1), (''medium'', 2), (''high'', 3)] perm 2"

definition getAquiferTypeValue :: "string \<Rightarrow> int" where
  "getAquiferTypeValue aq =
     map_or [(''unconfined'', 1), (''confined'', 2), (''semi-confined'', 3), (''leaky'', 4)] aq 1"

section \<open>Inputs of the predictor\<close>

record reading_metadata =
  md_confidence :: "real option"

record reading =
  waterLevel :: real
  waterLevelStatus :: string
  metadata :: "reading_metadata option"

record water_quality =
  ph :: "real option"
  tds :: "real option"

record technical_details =
  wellDepth :: "real option"
  aquiferType :: string
  waterQuality :: "water_quality option"

record station_doc =
  technicalDetails :: "technical_details option"

record station_data =
  station :: "station_doc option"
  latestReading :: "reading option"
  distance :: real

record seasonal_rainfall =
  monsoon :: "real option"

record rainfall_data =
  annual :: "real option"
  seasonal :: "seasonal_rainfall option"
  rf_trend :: string

record river =
  rv_distance :: "real option"
  influence :: string

record water_body =
  wb_distance :: "real option"

record proximity_data =
  rivers :: "river list"
  waterBodies :: "water_body list"

record geology_data =
  permeability :: string
  depth :: "real option"

record environmental_data =
  rainfall :: "rainfall_data option"
  proximity :: "proximity_data option"
  geology :: "geology_data option"

record trend_analysis =
  trend :: "real option"
  direction :: string
  significance :: string

section \<open>Feature extraction\<close>

record features =
  latitude :: real
  longitude :: real
  distance_to_station :: real
  current_water_level :: real
  water_level_status :: real
  trend_direction :: real
  trend_significance :: real
  trend_magnitude :: real
  annual_rainfall :: real
  monsoon_rainfall :: real
  rainfall_trend :: real
  nearest_river_distance :: real
  nearest_waterbody_distance :: real
  river_influence :: real
  soil_permeability :: real
  aquifer_depth :: real
  well_depth :: real
  aquifer_type :: real

definition first_elem :: "'a list \<Rightarrow> 'a option" where
  \<comment> \<open>\<open>xs?.[0]\<close>\<close>
  "first_elem xs = (case xs of [] \<Rightarrow> None | x # _ \<Rightarrow> Some x)"

definition extractFeatures ::
  "real \<Rightarrow> real \<Rightarrow> station_data option \<Rightarrow> environmental_data option \<Rightarrow>
   trend_analysis option \<Rightarrow> js_error + features" where
  "extractFeatures lat lon stationData environmentalData trendAnalysis =
    (case stationData of None \<Rightarrow> Inl TypeError | Some sd \<Rightarrow>
     (case trendAnalysis of None \<Rightarrow> Inl TypeError | Some ta \<Rightarrow>
     (case environmentalData of None \<Rightarrow> Inl TypeError | Some env \<Rightarrow>
     (case station sd of None \<Rightarrow> Inl TypeError | Some st \<Rightarrow>
     Inr \<lparr>
       latitude = lat,
       longitude = lon,
       distance_to_station = distance sd,
       current_water_level =
         (case latestReading sd of Some r \<Rightarrow> waterLevel r | None \<Rightarrow> 15),
       water_level_status =
         (case latestReading sd of
            Some r \<Rightarrow> of_int (getStatusValue (waterLevelStatus r)) | None \<Rightarrow> 2),
       trend_direction = of_int (getTrendValue (direction ta)),
       trend_significance = of_int (getSignificanceValue (significance ta)),
       trend_magnitude = \<bar>num_or (trend ta) 0\<bar>,
       annual_rainfall =
         (case rainfall env of Some rf \<Rightarrow> num_or (annual rf) 0 | None \<Rightarrow> 800),
       monsoon_rainfall =
         (case rainfall env of
            Some rf \<Rightarrow> num_or (case seasonal rf of None \<Rightarrow> None | Some s \<Rightarrow> monsoon s) 0
          | None \<Rightarrow> 600),
       rainfall_trend =
         (case rainfall env of Some rf \<Rightarrow> of_int (getTrendValue (rf_trend rf)) | None \<Rightarrow> 0),
       nearest_river_distance =
         (case proximity env of
            Some p \<Rightarrow>
              num_or (case first_elem (rivers p) of None \<Rightarrow> None | Some rv \<Rightarrow> rv_distance rv) 50
          | None \<Rightarrow> 50),
       nearest_waterbody_distance =
         (case proximity env of
            Some p \<Rightarrow>
              num_or (case first_elem (waterBodies p) of None \<Rightarrow> None
                      | Some wb \<Rightarrow> wb_distance wb) 50
          | None \<Rightarrow> 50),
       river_influence =
         (case proximity env of
            Some p \<Rightarrow>
              of_int (getInfluenceValue
                (case first_elem (rivers p) of None \<Rightarrow> ''undefined'' | Some rv \<Rightarrow> influence rv))
          | None \<Rightarrow> 1),
       soil_permeability =
         (case geology env of
            Some g \<Rightarrow> of_int (getPermeabilityValue (permeability g)) | None \<Rightarrow> 2),
       aquifer_depth =
         (case geology env of Some g \<Rightarrow> num_or (depth g) 20 | None \<Rightarrow> 20),
       well_depth =
         (case technicalDetails st of Some td \<Rightarrow> num_or (wellDepth td) 30 | None \<Rightarrow> 30),
       aquifer_type =
         (case technicalDetails st of
            Some td \<Rightarrow> of_int (getAquiferTypeValue (aquiferType td)) | None \<Rightarrow> 1)
     \<rparr>))))"

definition feature_keys :: "string list" where
  \<comment> \<open>\<open>Object.keys(features)\<close>, in insertion order.\<close>
  "feature_keys =
     [''latitude'', ''longitude'', ''distance_to_station'', ''current_water_level'',
      ''water_level_status'', ''trend_direction'', ''trend_significance'', ''trend_magnitude'',
      ''annual_rainfall'', ''monsoon_rainfall'', ''rainfall_trend'', ''nearest_river_distance'',
      ''nearest_waterbody_distance'', ''river_influence'', ''soil_permeability'',
      ''aquifer_depth'', ''well_depth'', ''aquifer_type'']"

definition feature_get :: "features \<Rightarrow> string \<Rightarrow> real option" where
  \<comment> \<open>\<open>features[name]\<close>: a name that is not a key reads \<open>undefined\<close>.\<close>
  "feature_get f name =
     map_of
       [(''latitude'', latitude f), (''longitude'', longitude f),
        (''distance_to_station'', distance_to_station f),
        (''current_water_level'', current_water_level f),
        (''water_level_status'', water_level_status f),
        (''trend_direction'', trend_direction f),
        (''trend_significance'', trend_significance f),
        (''trend_magnitude'', trend_magnitude f),
        (''annual_rainfall'', annual_rainfall f),
        (''monsoon_rainfall'', monsoon_rainfall f),
        (''rainfall_trend'', rainfall_trend f),
        (''nearest_river_distance'', nearest_river_distance f),
        (''nearest_waterbody_distance'', nearest_waterbody_distance f),
        (''river_influence'', river_influence f),
        (''soil_permeability'', soil_permeability f),
        (''aquifer_depth'', aquifer_depth f),
        (''well_depth'', well_depth f),
        (''aquifer_type'', aquifer_type f)] name"

section \<open>The three scoring sub-models\<close>

definition linear_weights :: "(string \<times> real) list" where
  "linear_weights =
     [(''current_water_level'', - 5 / 2), (''annual_rainfall'', 5 / 100),
      (''monsoon_rainfall'', 8 / 100), (''nearest_river_distance'', - 3 / 10),
      (''soil_permeability'', 15), (''trend_direction'', 10), (''trend_significance'', 5)]"

definition calculateLinearAvailability :: "features \<Rightarrow> real" where
  "calculateLinearAvailability f =
     (let score =
        foldl (\<lambda>score (feature, w).
                 case feature_get f feature of Some v \<Rightarrow> score + w * v | None \<Rightarrow> score)
              50 linear_weights
      in max 0 (min 100 score))"

definition calculateWeightedAvailability :: "features \<Rightarrow> real" where
  "calculateWeightedAvailability f =
     (let waterLevelScore = max 0 (100 - current_water_level f * 3);
          rainfallScore = min 100 (annual_rainfall f / 10 + monsoon_rainfall f / 8);
          proximityScore = max 0 (100 - nearest_river_distance f * 2);
          permeabilityScore = soil_permeability f * 25;
          scores = [(waterLevelScore, 4 / 10), (rainfallScore, 25 / 100),
                    (proximityScore, 2 / 10), (permeabilityScore, 15 / 100)];
          weightedSum = foldl (\<lambda>s (score, weight). s + score * weight) 0 scores;
          totalWeight = foldl (\<lambda>s (score, weight). s + weight) 0 scores
      in weightedSum / totalWeight)"

definition calculateTrendBasedAvailability :: "features \<Rightarrow> real" where
  "calculateTrendBasedAvailability f =
     (let score = 50;
          score = (if trend_direction f = 1 then score + 20
                   else if trend_direction f = - 1 then score - 20 else score);
          score = score + trend_significance f * 10;
          score = (if trend_magnitude f > 1 / 2 then score + trend_direction f * 15 else score)
      in max 0 (min 100 score))"

definition reading_confidence :: "station_data \<Rightarrow> real option" where
  \<comment> \<open>\<open>stationData.latestReading?.metadata?.confidence\<close>\<close>
  "reading_confidence sd =
     (case latestReading sd of None \<Rightarrow> None
      | Some r \<Rightarrow> (case metadata r of None \<Rightarrow> None | Some m \<Rightarrow> md_confidence m))"

definition calculatePredictionConfidence :: "features \<Rightarrow> station_data \<Rightarrow> int" where
  "calculatePredictionConfidence f sd =
     (let confidence = 50;
          confidence = (if latestReading sd \<noteq> None then confidence + 20 else confidence);
          confidence = (if annual_rainfall f > 0 then confidence + 10 else confidence);
          confidence = (if nearest_river_distance f < 20 then confidence + 10 else confidence);
          confidence = (if trend_significance f > 2 then confidence + 10 else confidence);
          confidence = (if distance sd < 10 then confidence + 10 else confidence);
          confidence =
            (if undef_gt (reading_confidence sd) 80 then confidence + 10 else confidence)
      in min 100 confidence)"

definition calculateFeatureImportance :: "features \<Rightarrow> (string \<times> real) list" where
  "calculateFeatureImportance f =
     [(''current_water_level'', 25 / 100), (''annual_rainfall'', 20 / 100),
      (''trend_direction'', 15 / 100), (''nearest_river_distance'', 15 / 100),
      (''soil_permeability'', 10 / 100), (''monsoon_rainfall'', 10 / 100),
      (''trend_significance'', 5 / 100)]"

section \<open>The ensemble predictor\<close>

record availability =
  score :: int
  status :: string

record model_details =
  linearScore :: real
  weightedScore :: real
  trendScore :: real
  ensembleScore :: real

record prediction =
  pr_availability :: availability
  confidence :: int
  pr_features :: "string list"
  featureImportance :: "(string \<times> real) list"
  modelDetails :: "model_details option"

definition ensemble :: "features \<Rightarrow> real" where
  \<comment> \<open>The local \<open>ensembleScore\<close> of \<open>predictGroundwaterLevel\<close>.\<close>
  "ensemble f =
     calculateLinearAvailability f * (4 / 10) + calculateWeightedAvailability f * (4 / 10)
       + calculateTrendBasedAvailability f * (2 / 10)"

definition status_of :: "real \<Rightarrow> string" where
  \<comment> \<open>The \<open>if\<close>/\<open>else if\<close> chain of \<open>predictGroundwaterLevel\<close>.\<close>
  "status_of s =
     (if s \<ge> 80 then ''excellent''
      else if s \<ge> 60 then ''good''
      else if s \<ge> 40 then ''moderate''
      else if s \<ge> 20 then ''low''
      else ''critical'')"

definition predict_try ::
  "real \<Rightarrow> real \<Rightarrow> station_data option \<Rightarrow> environmental_data option \<Rightarrow>
   trend_analysis option \<Rightarrow> js_error + prediction" where
  \<comment> \<open>The body of the \<open>try\<close> block.\<close>
  "predict_try lat lon stationData environmentalData trendAnalysis =
     (case extractFeatures lat lon stationData environmentalData trendAnalysis of
        Inl e \<Rightarrow> Inl e
      | Inr f \<Rightarrow>
          (case stationData of
             None \<Rightarrow> Inl TypeError
           | Some sd \<Rightarrow>
               Inr \<lparr> pr_availability = \<lparr> score = js_round (ensemble f), status = status_of (ensemble f) \<rparr>,
                     confidence = calculatePredictionConfidence f sd,
                     pr_features = feature_keys,
                     featureImportance = calculateFeatureImportance f,
                     modelDetails =
                       Some \<lparr> linearScore = calculateLinearAvailability f,
                              weightedScore = calculateWeightedAvailability f,
                              trendScore = calculateTrendBasedAvailability f,
                              ensembleScore = ensemble f \<rparr> \<rparr>))"

definition fallback_prediction :: prediction where
  \<comment> \<open>The object returned by the \<open>catch\<close> block.\<close>
  "fallback_prediction =
     \<lparr> pr_availability = \<lparr> score = 50, status = ''moderate'' \<rparr>,
       confidence = 30,
       pr_features = [''fallback''],
       featureImportance = [(''fallback'', 1)],
       modelDetails = None \<rparr>"

record predict_args =
  arg_latitude :: real
  arg_longitude :: real
  arg_stationData :: "station_data option"
  arg_environmentalData :: "environmental_data option"
  arg_trendAnalysis :: "trend_analysis option"

definition predictGroundwaterLevel :: "predict_args option \<Rightarrow> js_error + prediction" where
  \<comment> \<open>The function takes one argument object, destructured in the parameter list, before
      the \<open>try\<close> block: a missing or \<open>null\<close> argument (\<open>None\<close>) raises a TypeError
      that no handler catches. \<open>Inl\<close> is an exception that leaves the function (a
      rejected promise).\<close>
  "predictGroundwaterLevel args =
     (case args of
        None \<Rightarrow> Inl TypeError
      | Some a \<Rightarrow>
          (case predict_try (arg_latitude a) (arg_longitude a) (arg_stationData a)
                  (arg_environmentalData a) (arg_trendAnalysis a) of
             Inl e \<Rightarrow> Inr fallback_prediction
           | Inr p \<Rightarrow> Inr p))"

section \<open>Sustainability, recommendations and usage suitability\<close>

record sustainability =
  yearsRemaining :: int
  extractionRate :: real
  rechargeRate :: real
  balance :: string

definition calculateSustainability :: "real option \<Rightarrow> real \<Rightarrow> real \<Rightarrow> sustainability" where
  \<comment> \<open>The arguments are \<open>currentLevel\<close>, \<open>extractionRate\<close> and \<open>rechargeRate\<close>; the
      \<open>trend\<close> argument is never read. \<open>!currentLevel\<close> holds for \<open>undefined\<close>,
      \<open>null\<close> and \<open>0\<close>.\<close>
  "calculateSustainability currentLevel extraction recharge =
     (case currentLevel of
        None \<Rightarrow> \<lparr> yearsRemaining = 0, extractionRate = extraction, rechargeRate = recharge,
                  balance = ''unknown'' \<rparr>
      | Some level \<Rightarrow>
          if level = 0
          then \<lparr> yearsRemaining = 0, extractionRate = extraction, rechargeRate = recharge,
                 balance = ''unknown'' \<rparr>
          else
            (let netExtraction = extraction - recharge;
                 availableWater = level * 1000;
                 years = (if netExtraction > 0
                          then max 0 (availableWater / (netExtraction * 365))
                          else 999);
                 bal = (if netExtraction > recharge * (1 / 10) then ''deficit''
                        else if recharge > extraction * (11 / 10) then ''surplus''
                        else ''balanced'')
             in \<lparr> yearsRemaining = js_round years, extractionRate = extraction,
                   rechargeRate = recharge, balance = bal \<rparr>))"

record recommendation =
  rec_type :: string
  priority :: string
  title :: string
  description :: string
  impact :: string
  cost :: string
  timeline :: string

definition rec_conservation_critical :: recommendation where
  "rec_conservation_critical =
     \<lparr> rec_type = ''conservation'', priority = ''critical'',
       title = ''Immediate Water Conservation Required'',
       description = ''Groundwater levels are critically low. Implement immediate water conservation measures.'',
       impact = ''High water savings potential'', cost = ''Low to Medium'',
       timeline = ''Immediate'' \<rparr>"

definition rec_conservation_high :: recommendation where
  "rec_conservation_high =
     \<lparr> rec_type = ''conservation'', priority = ''high'',
       title = ''Water Conservation Measures'',
       description = ''Groundwater levels are low. Implement water conservation practices.'',
       impact = ''Moderate water savings'', cost = ''Low'', timeline = ''1-3 months'' \<rparr>"

definition rec_recharge :: recommendation where
  "rec_recharge =
     \<lparr> rec_type = ''recharge'', priority = ''high'',
       title = ''Install Rainwater Harvesting'',
       description = ''Set up rooftop rainwater collection systems to improve groundwater recharge during monsoon seasons.'',
       impact = ''Can increase local water table by 15-20%'', cost = ''Medium'',
       timeline = ''3-6 months'' \<rparr>"

definition rec_monitoring :: recommendation where
  "rec_monitoring =
     \<lparr> rec_type = ''monitoring'', priority = ''medium'',
       title = ''Enhanced Monitoring Required'',
       description = ''Water levels are declining significantly. Increase monitoring frequency and consider extraction limits.'',
       impact = ''Better decision making'', cost = ''Low'', timeline = ''1-2 months'' \<rparr>"

definition rec_irrigation :: recommendation where
  "rec_irrigation =
     \<lparr> rec_type = ''infrastructure'', priority = ''low'',
       title = ''Water-Efficient Irrigation'',
       description = ''Switch to drip irrigation systems for agricultural activities. This reduces water usage by 40% while maintaining crop yields.'',
       impact = ''40% water usage reduction'', cost = ''Medium'',
       timeline = ''6-12 months'' \<rparr>"

definition rainfall_annual :: "environmental_data \<Rightarrow> js_error + real option" where
  \<comment> \<open>\<open>environmentalData.rainfall.annual\<close>: a TypeError when \<open>rainfall\<close> is undefined.\<close>
  "rainfall_annual env = (case rainfall env of None \<Rightarrow> Inl TypeError | Some rf \<Rightarrow> Inr (annual rf))"

definition generateRecommendations ::
  "availability \<Rightarrow> sustainability \<Rightarrow> environmental_data \<Rightarrow> trend_analysis \<Rightarrow>
   js_error + recommendation list" where
  \<comment> \<open>\<open>&&\<close> reads the rainfall only when its left operand is true.\<close>
  "generateRecommendations av sus env ta =
     (let recs = [];
          recs = (if score av < 30 then recs @ [rec_conservation_critical]
                  else if score av < 50 then recs @ [rec_conservation_high]
                  else recs)
      in case (if balance sus = ''deficit'' then rainfall_annual env else Inr None) of
           Inl e \<Rightarrow> Inl e
         | Inr a2 \<Rightarrow>
             (let recs = (if balance sus = ''deficit'' \<and> undef_gt a2 500
                          then recs @ [rec_recharge] else recs);
                  recs = (if direction ta = ''falling'' \<and> significance ta = ''significant''
                          then recs @ [rec_monitoring] else recs)
              in case (if score av > 70 then rainfall_annual env else Inr None) of
                   Inl e \<Rightarrow> Inl e
                 | Inr a4 \<Rightarrow>
                     Inr (if score av > 70 \<and> undef_gt a4 800
                          then recs @ [rec_irrigation] else recs)))"

record usage =
  us_score :: real
  us_status :: string
  us_recommendations :: "string list"

record usage_suitability =
  agriculture :: usage
  domestic :: usage
  industrial :: usage

definition quality_ph :: "water_quality option \<Rightarrow> real option" where
  \<comment> \<open>\<open>quality?.ph\<close>\<close>
  "quality_ph q = (case q of None \<Rightarrow> None | Some w \<Rightarrow> ph w)"

definition quality_tds :: "water_quality option \<Rightarrow> real option" where
  \<comment> \<open>\<open>quality?.tds\<close>\<close>
  "quality_tds q = (case q of None \<Rightarrow> None | Some w \<Rightarrow> tds w)"

definition baseScore :: "real option \<Rightarrow> real" where
  "baseScore level = max 0 (100 - num_or level 20 * 2)"

definition calculateUsageSuitability :: "real option \<Rightarrow> water_quality option \<Rightarrow> usage_suitability" where
  \<comment> \<open>The arguments are \<open>waterLevel\<close> and \<open>quality\<close>; \<open>sustainability\<close> is never read.\<close>
  "calculateUsageSuitability level quality =
     (let b = baseScore level in
      \<lparr> agriculture =
          \<lparr> us_score = min 100 (b + (if undef_gt (quality_ph quality) (65 / 10)
                                        \<and> undef_lt (quality_ph quality) (85 / 10)
                                      then 20 else 0)),
            us_status = (if b > 70 then ''suitable'' else if b > 40 then ''moderate''
                         else ''unsuitable''),
            us_recommendations =
              (if b < 50 then [''Consider water-efficient crops'', ''Implement drip irrigation'']
               else []) \<rparr>,
        domestic =
          \<lparr> us_score = min 100 (b + (if undef_lt (quality_tds quality) 500 then 15 else 0)),
            us_status = (if b > 60 then ''suitable'' else if b > 30 then ''moderate''
                         else ''unsuitable''),
            us_recommendations =
              (if b < 40 then [''Install water treatment'', ''Regular water testing''] else []) \<rparr>,
        industrial =
          \<lparr> us_score = min 100 (b + (if undef_lt (quality_tds quality) 1000 then 10 else 0)),
            us_status = (if b > 50 then ''suitable'' else if b > 25 then ''moderate''
                         else ''unsuitable''),
            us_recommendations =
              (if b < 30 then [''Water recycling systems'', ''Alternative water sources'']
               else []) \<rparr> \<rparr>)"

section \<open>Seasonality: peak and low month\<close>

text \<open>
  \<open>new Date(timestamp).getMonth()\<close> belongs to the platform and depends on the host's
  time zone, so the month of a timestamp is a parameter \<open>getMonth\<close>. Timestamps are
  milliseconds since the epoch. \<open>utc_month\<close> is the instance for a host in UTC.
\<close>

definition utc_month :: "int \<Rightarrow> nat" where
  \<comment> \<open>Modelled from the platform (ECMAScript \<open>Date.prototype.getMonth\<close>, zone UTC): the
      civil month, January being 0, of the day that holds the timestamp.\<close>
  "utc_month ms =
     (let days = ms div 86400000;
          z = days + 719468;
          era = z div 146097;
          doe = z - era * 146097;
          yoe = (doe - doe div 1460 + doe div 36524 - doe div 146096) div 365;
          doy = doe - (365 * yoe + yoe div 4 - yoe div 100);
          mp = (5 * doy + 2) div 153
      in nat (if mp < 10 then mp + 2 else mp - 10))"

definition month_keys :: "(int \<Rightarrow> nat) \<Rightarrow> int list \<Rightarrow> nat list" where
  \<comment> \<open>\<open>Object.keys(monthlyData)\<close>: integer keys come in ascending order, each once.\<close>
  "month_keys getMonth timestamps = sort (remdups (map getMonth timestamps))"

definition monthlyData :: "(int \<Rightarrow> nat) \<Rightarrow> real list \<Rightarrow> int list \<Rightarrow> nat \<Rightarrow> real list" where
  \<comment> \<open>The values pushed under one month, in input order.\<close>
  "monthlyData getMonth data timestamps m =
     map snd (filter (\<lambda>(t, v). getMonth t = m) (zip timestamps data))"

definition mean :: "real list \<Rightarrow> real" where
  \<comment> \<open>\<open>simpleStats.mean\<close> on a non-empty list.\<close>
  "mean xs = sum_list xs / real (length xs)"

definition monthlyMeans :: "(int \<Rightarrow> nat) \<Rightarrow> real list \<Rightarrow> int list \<Rightarrow> nat \<Rightarrow> real" where
  "monthlyMeans getMonth data timestamps m = mean (monthlyData getMonth data timestamps m)"

definition js_reduce :: "('a \<Rightarrow> 'a \<Rightarrow> 'a) \<Rightarrow> 'a list \<Rightarrow> js_error + 'a" where
  \<comment> \<open>\<open>Array.prototype.reduce\<close> without an initial value: the first element starts the
      accumulator, and an empty array raises a TypeError.\<close>
  "js_reduce f xs = (case xs of [] \<Rightarrow> Inl TypeError | x # rest \<Rightarrow> Inr (foldl f x rest))"

record seasonality =
  monthly_means :: "(nat \<times> real) list"
  peakMonth :: nat
  lowMonth :: nat

definition detectSeasonality ::
  "(int \<Rightarrow> nat) \<Rightarrow> real list \<Rightarrow> int list \<Rightarrow> js_error + seasonality option" where
  \<comment> \<open>\<open>None\<close> is the \<open>null\<close> returned for fewer than 12 observations. The fields
      \<open>coefficientOfVariation\<close> and \<open>seasonal\<close> of the result are left out. The two arrays
      are read pairwise; the callers pass arrays of one length.\<close>
  "detectSeasonality getMonth data timestamps =
     (if length data < 12 then Inr None
      else
        (let ks = month_keys getMonth timestamps;
             mm = monthlyMeans getMonth data timestamps
         in case js_reduce (\<lambda>a b. if mm a > mm b then a else b) ks of
              Inl e \<Rightarrow> Inl e
            | Inr pk \<Rightarrow>
                (case js_reduce (\<lambda>a b. if mm a < mm b then a else b) ks of
                   Inl e \<Rightarrow> Inl e
                 | Inr lo \<Rightarrow>
                     Inr (Some \<lparr> monthly_means = map (\<lambda>k. (k, mm k)) ks,
                                 peakMonth = pk, lowMonth = lo \<rparr>))))"

section \<open>Statements of the specification, and example inputs\<close>

definition status_by_thresholds :: "int \<Rightarrow> string" where
  \<comment> \<open>The specification's thresholds, read on the reported (rounded) score:
      critical below 20, low below 40, moderate below 60, good below 80, else excellent.\<close>
  "status_by_thresholds n =
     (if n < 20 then ''critical''
      else if n < 40 then ''low''
      else if n < 60 then ''moderate''
      else if n < 80 then ''good''
      else ''excellent'')"

definition confidence_by_spec :: "features \<Rightarrow> station_data \<Rightarrow> int" where
  \<comment> \<open>The specification's confidence: the bonus for the trend is given from the encoding
      of \<open>significant\<close> (2) upwards.\<close>
  "confidence_by_spec f sd =
     min 100
       (50 + (if latestReading sd \<noteq> None then 20 else 0)
           + (if annual_rainfall f > 0 then 10 else 0)
           + (if nearest_river_distance f < 20 then 10 else 0)
           + (if trend_significance f \<ge> of_int (getSignificanceValue ''significant'') then 10 else 0)
           + (if distance sd < 10 then 10 else 0)
           + (if undef_gt (reading_confidence sd) 80 then 10 else 0))"

definition example_station :: station_data where
  \<comment> \<open>A station 5 km away with no reading yet and no technical details.\<close>
  "example_station =
     \<lparr> station = Some \<lparr> technicalDetails = None \<rparr>, latestReading = None, distance = 5 \<rparr>"

definition example_environment :: environmental_data where
  "example_environment =
     \<lparr> rainfall = Some \<lparr> annual = Some 1000, seasonal = Some \<lparr> monsoon = Some 800 \<rparr>,
                         rf_trend = ''stable'' \<rparr>,
       proximity = Some \<lparr> rivers = [\<lparr> rv_distance = Some 10, influence = ''high'' \<rparr>],
                          waterBodies = [] \<rparr>,
       geology = Some \<lparr> permeability = ''high'', depth = Some 20 \<rparr> \<rparr>"

definition example_trend :: "string \<Rightarrow> string \<Rightarrow> trend_analysis" where
  "example_trend dir sig = \<lparr> trend = Some 0, direction = dir, significance = sig \<rparr>"

definition example_args :: "string \<Rightarrow> string \<Rightarrow> predict_args" where
  \<comment> \<open>The argument object for the example station and environment at the origin.\<close>
  "example_args dir sig =
     \<lparr> arg_latitude = 0, arg_longitude = 0, arg_stationData = Some example_station,
       arg_environmentalData = Some example_environment,
       arg_trendAnalysis = Some (example_trend dir sig) \<rparr>"

definition empty_args :: predict_args where
  \<comment> \<open>An argument object whose station, environment and trend are all undefined.\<close>
  "empty_args =
     \<lparr> arg_latitude = 0, arg_longitude = 0, arg_stationData = None,
       arg_environmentalData = None, arg_trendAnalysis = None \<rparr>"

definition example_features :: "real \<Rightarrow> real \<Rightarrow> features" where
  \<comment> \<open>What \<open>extractFeatures\<close> returns for the example station and environment at the
      origin, for a trend whose direction and significance are encoded as \<open>dir\<close> and
      \<open>sig\<close>.\<close>
  "example_features dir sig =
     \<lparr> latitude = 0, longitude = 0, distance_to_station = 5, current_water_level = 15,
       water_level_status = 2, trend_direction = dir, trend_significance = sig,
       trend_magnitude = 0, annual_rainfall = 1000, monsoon_rainfall = 800,
       rainfall_trend = 0, nearest_river_distance = 10, nearest_waterbody_distance = 50,
       river_influence = 3, soil_permeability = 3, aquifer_depth = 20, well_depth = 30,
       aquifer_type = 1 \<rparr>"

definition example_timestamps :: "int list" where
  \<comment> \<open>Noon UTC on the 15th of each month of 2023.\<close>
  "example_timestamps =
     [1673784000000, 1676462400000, 1678881600000, 1681560000000, 1684152000000,
      1686830400000, 1689422400000, 1692100800000, 1694779200000, 1697371200000,
      1700049600000, 1702641600000]"

definition example_levels :: "real list" where
  \<comment> \<open>February and March tie on the highest level, April to December on the lowest.\<close>
  "example_levels = [5, 9, 9, 3, 3, 3, 3, 3, 3, 3, 3, 3]"

section \<open>Auxiliary facts\<close>

lemma js_round_bounds: "of_int (js_round x) \<le> x + 1 / 2 \<and> x + 1 / 2 < of_int (js_round x) + 1"
  unfolding js_round_def by linarith

lemma js_round_mono: "x \<le> y \<Longrightarrow> js_round x \<le> js_round y"
  unfolding js_round_def by (simp add: floor_mono)

lemma encoders_except_critical:
  "getStatusValue ''low'' = 1 \<and> getStatusValue ''moderate'' = 2 \<and> getStatusValue ''good'' = 3
   \<and> getStatusValue ''excellent'' = 4
   \<and> getTrendValue ''falling'' = - 1 \<and> getTrendValue ''stable'' = 0 \<and> getTrendValue ''rising'' = 1
   \<and> getSignificanceValue ''not_significant'' = 0
   \<and> getSignificanceValue ''marginally_significant'' = 1
   \<and> getSignificanceValue ''significant'' = 2
   \<and> getSignificanceValue ''very_significant'' = 3
   \<and> getSignificanceValue ''highly_significant'' = 4
   \<and> getInfluenceValue ''low'' = 1 \<and> getInfluenceValue ''medium'' = 2
   \<and> getInfluenceValue ''high'' = 3
   \<and> getPermeabilityValue ''low'' = 1 \<and> getPermeabilityValue ''medium'' = 2
   \<and> getPermeabilityValue ''high'' = 3
   \<and> getAquiferTypeValue ''unconfined'' = 1 \<and> getAquiferTypeValue ''confined'' = 2
   \<and> getAquiferTypeValue ''semi-confined'' = 3 \<and> getAquiferTypeValue ''leaky'' = 4"
  by (simp add: getStatusValue_def getTrendValue_def getSignificanceValue_def
      getInfluenceValue_def getPermeabilityValue_def getAquiferTypeValue_def map_or_def)

lemma significance_above_two:
  "(getSignificanceValue s > 2) = (s = ''very_significant'' \<or> s = ''highly_significant'')"
  by (simp add: getSignificanceValue_def map_or_def)

lemma linear_closed_form:
  "calculateLinearAvailability f =
     max 0 (min 100 (50 - 5 / 2 * current_water_level f + 5 / 100 * annual_rainfall f
       + 8 / 100 * monsoon_rainfall f - 3 / 10 * nearest_river_distance f
       + 15 * soil_permeability f + 10 * trend_direction f + 5 * trend_significance f))"
  by (simp add: calculateLinearAvailability_def linear_weights_def feature_get_def)

lemma weighted_closed_form:
  "calculateWeightedAvailability f =
     max 0 (100 - current_water_level f * 3) * (4 / 10)
     + min 100 (annual_rainfall f / 10 + monsoon_rainfall f / 8) * (25 / 100)
     + max 0 (100 - nearest_river_distance f * 2) * (2 / 10)
     + soil_permeability f * 25 * (15 / 100)"
  by (simp add: calculateWeightedAvailability_def Let_def)

lemma example_encodings:
  "getTrendValue ''stable'' = 0" "getSignificanceValue ''not_significant'' = 0"
  "getTrendValue ''falling'' = - 1" "getSignificanceValue ''significant'' = 2"
  by (simp_all add: getTrendValue_def getSignificanceValue_def map_or_def)

lemma example_features_extracted:
  "extractFeatures 0 0 (Some example_station) (Some example_environment)
     (Some (example_trend dir sig))
   = Inr (example_features (of_int (getTrendValue dir)) (of_int (getSignificanceValue sig)))"
  by (simp add: extractFeatures_def example_station_def example_environment_def
      example_trend_def example_features_def num_or_def first_elem_def
      getInfluenceValue_def getPermeabilityValue_def map_or_def example_encodings)

lemma predict_try_extracted:
  assumes "extractFeatures lat lon (Some sd) env ta = Inr f"
  shows "predict_try lat lon (Some sd) env ta =
     Inr \<lparr> pr_availability = \<lparr> score = js_round (ensemble f), status = status_of (ensemble f) \<rparr>,
           confidence = calculatePredictionConfidence f sd,
           pr_features = feature_keys,
           featureImportance = calculateFeatureImportance f,
           modelDetails =
             Some \<lparr> linearScore = calculateLinearAvailability f,
                    weightedScore = calculateWeightedAvailability f,
                    trendScore = calculateTrendBasedAvailability f,
                    ensembleScore = ensemble f \<rparr> \<rparr>"
  using assms by (simp add: predict_try_def)

lemma example_scores:
  "calculateLinearAvailability (example_features 0 0) = 100"
  "calculateWeightedAvailability (example_features 0 0) = 297 / 4"
  "calculateTrendBasedAvailability (example_features 0 0) = 50"
  "calculateLinearAvailability (example_features (- 1) 2) = 100"
  "calculateWeightedAvailability (example_features (- 1) 2) = 297 / 4"
  "calculateTrendBasedAvailability (example_features (- 1) 2) = 50"
  by (simp_all add: linear_closed_form weighted_closed_form
      calculateTrendBasedAvailability_def example_features_def)

lemma example_ensemble:
  "ensemble (example_features 0 0) = 797 / 10"
  "ensemble (example_features (- 1) 2) = 797 / 10"
  by (simp_all add: ensemble_def example_scores)

lemma js_round_ge_iff: "(k \<le> js_round x) = (of_int k - 1 / 2 \<le> x)"
  unfolding js_round_def le_floor_iff by auto

lemma threshold_agrees:
  assumes "js_round x \<noteq> k"
  shows "(of_int k \<le> x) = (k \<le> js_round x)"
proof
  assume "of_int k \<le> x"
  then have "of_int k - 1 / 2 \<le> x" by simp
  then show "k \<le> js_round x" by (simp add: js_round_ge_iff)
next
  assume "k \<le> js_round x"
  with assms have "k + 1 \<le> js_round x" by simp
  then have "of_int (k + 1) - 1 / 2 \<le> x" by (simp only: js_round_ge_iff)
  then show "of_int k \<le> x" by simp
qed

lemma status_of_rounded:
  assumes "js_round x \<notin> {20, 40, 60, 80}"
  shows "status_of x = status_by_thresholds (js_round x)"
proof -
  have "(80 \<le> x) = (80 \<le> js_round x)" "(60 \<le> x) = (60 \<le> js_round x)"
    "(40 \<le> x) = (40 \<le> js_round x)" "(20 \<le> x) = (20 \<le> js_round x)"
    using assms threshold_agrees [of x 80] threshold_agrees [of x 60]
      threshold_agrees [of x 40] threshold_agrees [of x 20] by simp_all
  then show ?thesis
    by (simp add: status_of_def status_by_thresholds_def not_less)
qed

lemma status_of_near:
  "status_of x = status_by_thresholds (js_round x)
   \<or> status_of x = status_by_thresholds (js_round x - 1)"
proof (cases "js_round x \<in> {20, 40, 60, 80}")
  case False
  then show ?thesis by (simp add: status_of_rounded)
next
  case True
  have b: "of_int (js_round x) - 1 / 2 \<le> x" "x < of_int (js_round x) + 1 / 2"
    using js_round_bounds [of x] by simp_all
  from True consider "js_round x = 20" | "js_round x = 40" | "js_round x = 60" | "js_round x = 80"
    by auto
  then show ?thesis
  proof cases
    case 1 with b show ?thesis by (simp add: status_of_def status_by_thresholds_def)
  next
    case 2 with b show ?thesis by (simp add: status_of_def status_by_thresholds_def)
  next
    case 3 with b show ?thesis by (simp add: status_of_def status_by_thresholds_def)
  next
    case 4 with b show ?thesis by (simp add: status_of_def status_by_thresholds_def)
  qed
qed

section \<open>Status and reported score\<close>

text \<open>
  C1, as the specification states it, fails: the status is computed from the unrounded
  ensemble score and the reported score is rounded afterwards. For the example station
  and environment with a stable, not significant trend the ensemble score is 79.7: the
  reported score is 80 and the status is \<open>good\<close>, where the thresholds on the reported
  score give \<open>excellent\<close>.
\<close>

theorem status_of_rounded_score_counterexample:
  "map_sum id pr_availability
     (predictGroundwaterLevel (Some (example_args ''stable'' ''not_significant'')))
     = Inr \<lparr> score = 80, status = ''good'' \<rparr>
   \<and> map_sum id modelDetails
     (predict_try 0 0 (Some example_station) (Some example_environment)
        (Some (example_trend ''stable'' ''not_significant'')))
     = Inr (Some \<lparr> linearScore = 100, weightedScore = 297 / 4, trendScore = 50,
                   ensembleScore = 797 / 10 \<rparr>)
   \<and> status_by_thresholds 80 = ''excellent''"
proof -
  have f: "extractFeatures 0 0 (Some example_station) (Some example_environment)
      (Some (example_trend ''stable'' ''not_significant'')) = Inr (example_features 0 0)"
    by (simp add: example_features_extracted example_encodings)
  have r: "js_round (797 / 10) = 80" "status_of (797 / 10) = ''good''"
    by (simp_all add: js_round_def status_of_def)
  show ?thesis
    by (simp add: predictGroundwaterLevel_def example_args_def predict_try_extracted [OF f]
        example_ensemble example_scores r status_by_thresholds_def)
qed

text \<open>
  C1, amended. On the non-fallback path the status is the threshold function (critical
  below 20, low below 40, moderate below 60, good below 80, else excellent) of the
  unrounded ensemble score, and the reported score is that score rounded. The status
  agrees with the thresholds read on the reported score whenever the reported score is
  not 20, 40, 60 or 80; at those four values it is either the bucket that starts there
  or the bucket just below.
\<close>

theorem status_follows_unrounded_score:
  assumes "predict_try lat lon sd env ta = Inr p"
  shows "predictGroundwaterLevel
           (Some \<lparr> arg_latitude = lat, arg_longitude = lon, arg_stationData = sd,
                   arg_environmentalData = env, arg_trendAnalysis = ta \<rparr>) = Inr p
     \<and> (\<exists>f. extractFeatures lat lon sd env ta = Inr f
            \<and> score (pr_availability p) = js_round (ensemble f)
            \<and> status (pr_availability p) = status_of (ensemble f))
     \<and> (score (pr_availability p) \<notin> {20, 40, 60, 80} \<longrightarrow>
           status (pr_availability p) = status_by_thresholds (score (pr_availability p)))
     \<and> (status (pr_availability p) = status_by_thresholds (score (pr_availability p))
          \<or> status (pr_availability p) = status_by_thresholds (score (pr_availability p) - 1))"
proof -
  from assms obtain f where f: "extractFeatures lat lon sd env ta = Inr f"
    by (cases "extractFeatures lat lon sd env ta") (simp_all add: predict_try_def)
  with assms have av: "score (pr_availability p) = js_round (ensemble f)"
    "status (pr_availability p) = status_of (ensemble f)"
    by (auto simp: predict_try_def split: option.splits)
  have ret: "predictGroundwaterLevel
      (Some \<lparr> arg_latitude = lat, arg_longitude = lon, arg_stationData = sd,
              arg_environmentalData = env, arg_trendAnalysis = ta \<rparr>) = Inr p"
    using assms by (simp add: predictGroundwaterLevel_def)
  show ?thesis
    using ret f av status_of_rounded [of "ensemble f"] status_of_near [of "ensemble f"]
    by simp
qed

theorem status_follows_unrounded_score_witness:
  "\<exists>p. predict_try 0 0 (Some example_station) (Some example_environment)
          (Some (example_trend ''falling'' ''significant'')) = Inr p
      \<and> predictGroundwaterLevel (Some (example_args ''falling'' ''significant'')) = Inr p
      \<and> score (pr_availability p) = 80 \<and> status (pr_availability p) = ''good''
      \<and> status_by_thresholds (score (pr_availability p) - 1) = ''good''"
proof -
  have f: "extractFeatures 0 0 (Some example_station) (Some example_environment)
      (Some (example_trend ''falling'' ''significant'')) = Inr (example_features (- 1) 2)"
    by (simp add: example_features_extracted example_encodings)
  have r: "js_round (797 / 10) = 80" "status_of (797 / 10) = ''good''"
    "status_by_thresholds 79 = ''good''"
    by (simp_all add: js_round_def status_of_def status_by_thresholds_def)
  note h = predict_try_extracted [OF f]
  from status_follows_unrounded_score [OF h] show ?thesis
    unfolding h example_args_def by (simp add: example_ensemble r)
qed

section \<open>Categorical encoders\<close>

text \<open>
  C2. The encoders are meant to realise the integer tables of the feature extractor,
  with \<open>critical\<close> encoded as 0. In the code the entry 0 of the status table is falsy, so
  \<open>statusMap[status] || 2\<close> replaces it by the default: \<open>critical\<close> is encoded as 2, the
  code of \<open>moderate\<close>.
\<close>

theorem getStatusValue_critical_is_two:
  "getStatusValue ''critical'' = 2 \<and> getStatusValue ''critical'' = getStatusValue ''moderate''"
  by (simp add: getStatusValue_def map_or_def)

section \<open>The fallback of the predictor\<close>

text \<open>
  C3, as the specification states it, fails: the argument object is destructured in the
  parameter list, which is evaluated before the \<open>try\<close> block is entered. A call with a
  missing or \<open>null\<close> argument raises a TypeError that reaches the caller.
\<close>

theorem predict_null_argument_counterexample:
  "predictGroundwaterLevel None = Inl TypeError"
  by (simp add: predictGroundwaterLevel_def)

text \<open>
  C3, amended. For every call that passes an argument object, \<open>predictGroundwaterLevel\<close>
  does not raise: it returns a prediction, and whenever feature extraction or the body of
  the \<open>try\<close> block raises, the prediction is the neutral one, with score 50, status
  moderate, confidence 30 and the single feature name \<open>fallback\<close>.
\<close>

theorem predict_object_never_throws:
  "(\<exists>p. predictGroundwaterLevel (Some a) = Inr p)
   \<and> (\<forall>e. extractFeatures (arg_latitude a) (arg_longitude a) (arg_stationData a)
              (arg_environmentalData a) (arg_trendAnalysis a) = Inl e
            \<or> predict_try (arg_latitude a) (arg_longitude a) (arg_stationData a)
              (arg_environmentalData a) (arg_trendAnalysis a) = Inl e \<longrightarrow>
         (\<exists>p. predictGroundwaterLevel (Some a) = Inr p
              \<and> score (pr_availability p) = 50 \<and> status (pr_availability p) = ''moderate''
              \<and> confidence p = 30 \<and> pr_features p = [''fallback'']))"
proof -
  let ?body = "predict_try (arg_latitude a) (arg_longitude a) (arg_stationData a)
      (arg_environmentalData a) (arg_trendAnalysis a)"
  let ?extracted = "extractFeatures (arg_latitude a) (arg_longitude a) (arg_stationData a)
      (arg_environmentalData a) (arg_trendAnalysis a)"
  have total: "\<exists>p. predictGroundwaterLevel (Some a) = Inr p"
    by (cases ?body) (simp_all add: predictGroundwaterLevel_def)
  have extraction: "?body = Inl e" if "?extracted = Inl e" for e
    using that by (simp add: predict_try_def)
  have caught: "predictGroundwaterLevel (Some a) = Inr fallback_prediction"
    if "?body = Inl e" for e
    using that by (simp add: predictGroundwaterLevel_def)
  have neutral: "score (pr_availability fallback_prediction) = 50
      \<and> status (pr_availability fallback_prediction) = ''moderate''
      \<and> confidence fallback_prediction = 30 \<and> pr_features fallback_prediction = [''fallback'']"
    by (simp add: fallback_prediction_def)
  show ?thesis
    using total extraction caught neutral by metis
qed

theorem predict_object_never_throws_witness:
  "extractFeatures (arg_latitude empty_args) (arg_longitude empty_args)
     (arg_stationData empty_args) (arg_environmentalData empty_args)
     (arg_trendAnalysis empty_args) = Inl TypeError
   \<and> (\<exists>p. predictGroundwaterLevel (Some empty_args) = Inr p
          \<and> score (pr_availability p) = 50 \<and> status (pr_availability p) = ''moderate''
          \<and> confidence p = 30 \<and> pr_features p = [''fallback''])"
proof -
  have h: "extractFeatures (arg_latitude empty_args) (arg_longitude empty_args)
     (arg_stationData empty_args) (arg_environmentalData empty_args)
     (arg_trendAnalysis empty_args) = Inl TypeError"
    by (simp add: extractFeatures_def empty_args_def)
  from predict_object_never_throws [of empty_args] h show ?thesis
    by blast
qed

section \<open>Prediction confidence\<close>

text \<open>
  C4, as the specification states it, fails: a trend of significance \<open>significant\<close>
  (encoded 2) earns no bonus, because the code tests \<open>trend_significance > 2\<close>. For the
  example features, where no reading exists, the code returns 80 and the specification's
  formula 90.
\<close>

theorem confidence_significant_counterexample:
  "calculatePredictionConfidence (example_features (- 1) 2) example_station = 80
   \<and> confidence_by_spec (example_features (- 1) 2) example_station = 90
   \<and> trend_significance (example_features (- 1) 2) = of_int (getSignificanceValue ''significant'')"
  by (simp add: calculatePredictionConfidence_def confidence_by_spec_def example_features_def
      example_station_def reading_confidence_def undef_gt_def getSignificanceValue_def
      map_or_def)

text \<open>
  C4, amended. For every feature vector and station data the confidence is 50, plus 20
  if a latest reading exists, plus 10 if the annual rainfall is positive, plus 10 if the
  nearest river is closer than 20 km, plus 10 if the encoded trend significance is above 2,
  plus 10 if the station is closer than 10 km, plus 10 if the reading's own confidence is
  above 80, capped at 100; and an encoded significance is above 2 exactly for
  \<open>very_significant\<close> and \<open>highly_significant\<close>.
\<close>

theorem confidence_formula:
  "calculatePredictionConfidence f sd =
     min 100
       (50 + (if latestReading sd \<noteq> None then 20 else 0)
           + (if annual_rainfall f > 0 then 10 else 0)
           + (if nearest_river_distance f < 20 then 10 else 0)
           + (if trend_significance f > 2 then 10 else 0)
           + (if distance sd < 10 then 10 else 0)
           + (if undef_gt (reading_confidence sd) 80 then 10 else 0))
   \<and> ((real_of_int (getSignificanceValue s) > 2)
        = (s = ''very_significant'' \<or> s = ''highly_significant''))"
proof -
  have "(real_of_int (getSignificanceValue s) > 2) = (getSignificanceValue s > 2)"
    by linarith
  then show ?thesis
    by (simp add: calculatePredictionConfidence_def Let_def significance_above_two)
qed

section \<open>The monitoring recommendation\<close>

text \<open>
  C5, as the specification states it, fails: the rule compares the significance with the
  one string \<open>significant\<close>, so a falling trend that is \<open>very_significant\<close> gets no
  monitoring recommendation. With score 60 and a balanced sustainability no rule fires.
\<close>

theorem monitoring_stronger_counterexample:
  "generateRecommendations \<lparr> score = 60, status = ''good'' \<rparr>
     \<lparr> yearsRemaining = 999, extractionRate = 100, rechargeRate = 100, balance = ''balanced'' \<rparr>
     example_environment (example_trend ''falling'' ''very_significant'') = Inr []"
  by (simp add: generateRecommendations_def example_trend_def)

text \<open>
  C5, amended. Whenever the generator returns, its list holds the medium-priority
  enhanced-monitoring recommendation exactly when the trend direction is \<open>falling\<close> and
  the significance is exactly \<open>significant\<close>.
\<close>

theorem monitoring_iff_falling_significant:
  assumes "generateRecommendations av sus env ta = Inr recs"
  shows "(rec_monitoring \<in> set recs)
           = (direction ta = ''falling'' \<and> significance ta = ''significant'')"
proof -
  have distinct_recs: "rec_monitoring \<noteq> rec_conservation_critical"
    "rec_monitoring \<noteq> rec_conservation_high" "rec_monitoring \<noteq> rec_recharge"
    "rec_monitoring \<noteq> rec_irrigation"
    by (simp_all add: rec_monitoring_def rec_conservation_critical_def
        rec_conservation_high_def rec_recharge_def rec_irrigation_def)
  from assms show ?thesis
    unfolding generateRecommendations_def Let_def
    by (auto split: sum.splits if_splits simp: distinct_recs)
qed

theorem monitoring_iff_falling_significant_witness:
  "generateRecommendations \<lparr> score = 60, status = ''good'' \<rparr>
     \<lparr> yearsRemaining = 999, extractionRate = 100, rechargeRate = 100, balance = ''balanced'' \<rparr>
     example_environment (example_trend ''falling'' ''significant'') = Inr [rec_monitoring]
   \<and> rec_monitoring \<in> set [rec_monitoring]"
proof -
  have h: "generateRecommendations \<lparr> score = 60, status = ''good'' \<rparr>
     \<lparr> yearsRemaining = 999, extractionRate = 100, rechargeRate = 100, balance = ''balanced'' \<rparr>
     example_environment (example_trend ''falling'' ''significant'') = Inr [rec_monitoring]"
    by (simp add: generateRecommendations_def example_trend_def)
  from monitoring_iff_falling_significant [OF h] h show ?thesis
    by (simp add: example_trend_def)
qed

section \<open>Usage suitability at level zero\<close>

text \<open>
  C10. A water level of exactly 0 is falsy and is replaced by the default level 20: for
  every quality input the result at level 0 is the result at level 20, with base score 60
  and not the 100 that \<open>max(0, 100 - 2 * level)\<close> gives at 0.
\<close>

theorem usage_level_zero_is_level_twenty:
  "calculateUsageSuitability (Some 0) quality = calculateUsageSuitability (Some 20) quality
   \<and> baseScore (Some 0) = 60 \<and> baseScore (Some 0) \<noteq> max 0 (100 - 2 * 0)"
  by (simp add: calculateUsageSuitability_def baseScore_def num_or_def)

section \<open>Sustainability\<close>

text \<open>
  C6, as the specification states it, fails. The reported years are rounded, so raising
  the extraction from 1000 to 2000 at level 10 and recharge 0 leaves them at 0; and a
  level of exactly 0 is taken as absent, so the result there is 0 and not 999 although
  the recharge exceeds the extraction.
\<close>

theorem sustainability_strict_counterexample:
  "yearsRemaining (calculateSustainability (Some 10) 1000 0) = 0
   \<and> yearsRemaining (calculateSustainability (Some 10) 2000 0) = 0
   \<and> yearsRemaining (calculateSustainability (Some 0) 100 200) = 0"
  by (simp add: calculateSustainability_def js_round_def)

text \<open>
  C6, amended. With no current level the result is 0 years and balance \<open>unknown\<close>. With a
  level that is present and not zero, a recharge of at least the extraction gives 999
  years, and with the extraction above the recharge the reported years never increase as
  the extraction grows.
\<close>

theorem sustainability_years:
  "yearsRemaining (calculateSustainability None e r) = 0
   \<and> balance (calculateSustainability None e r) = ''unknown''
   \<and> (l \<noteq> 0 \<and> e \<le> r \<longrightarrow> yearsRemaining (calculateSustainability (Some l) e r) = 999)
   \<and> (l \<noteq> 0 \<and> r < e1 \<and> e1 \<le> e2 \<longrightarrow>
        yearsRemaining (calculateSustainability (Some l) e2 r)
          \<le> yearsRemaining (calculateSustainability (Some l) e1 r))"
proof -
  have absent: "yearsRemaining (calculateSustainability None e r) = 0
      \<and> balance (calculateSustainability None e r) = ''unknown''"
    by (simp add: calculateSustainability_def)
  have unlimited: "yearsRemaining (calculateSustainability (Some l) e r) = 999"
    if "l \<noteq> 0" "e \<le> r"
    using that by (simp add: calculateSustainability_def Let_def js_round_def)
  have mono: "yearsRemaining (calculateSustainability (Some l) e2 r)
      \<le> yearsRemaining (calculateSustainability (Some l) e1 r)"
    if "l \<noteq> 0" "r < e1" "e1 \<le> e2"
  proof -
    have pos: "0 < (e1 - r) * 365" "(e1 - r) * 365 \<le> (e2 - r) * 365"
      using that by simp_all
    have "max 0 (l * 1000 / ((e2 - r) * 365)) \<le> max 0 (l * 1000 / ((e1 - r) * 365))"
    proof (cases "0 \<le> l")
      case True
      then have "l * 1000 / ((e2 - r) * 365) \<le> l * 1000 / ((e1 - r) * 365)"
        using pos by (intro divide_left_mono) (simp_all add: mult_pos_pos)
      then show ?thesis by (simp add: max_def)
    next
      case False
      then have "l * 1000 / ((e2 - r) * 365) \<le> 0"
        using pos by (simp add: divide_le_0_iff)
      moreover have "l * 1000 / ((e1 - r) * 365) \<le> 0"
        using False pos by (simp add: divide_le_0_iff)
      ultimately show ?thesis by (simp add: max_def)
    qed
    then have "js_round (max 0 (l * 1000 / ((e2 - r) * 365)))
        \<le> js_round (max 0 (l * 1000 / ((e1 - r) * 365)))"
      by (rule js_round_mono)
    then show ?thesis
      using that by (simp add: calculateSustainability_def Let_def)
  qed
  show ?thesis
    using absent unlimited mono by blast
qed

theorem sustainability_years_witness:
  "(10::real) \<noteq> 0 \<and> (0::real) < 10 \<and> (10::real) \<le> 20 \<and> (50::real) \<le> 60
   \<and> yearsRemaining (calculateSustainability (Some 10) 50 60) = 999
   \<and> yearsRemaining (calculateSustainability (Some 10) 20 0) = 1
   \<and> yearsRemaining (calculateSustainability (Some 10) 10 0) = 3
   \<and> yearsRemaining (calculateSustainability (Some 10) 20 0)
       \<le> yearsRemaining (calculateSustainability (Some 10) 10 0)"
proof -
  have computed: "yearsRemaining (calculateSustainability (Some 10) 20 0) = 1"
    "yearsRemaining (calculateSustainability (Some 10) 10 0) = 3"
    by (simp_all add: calculateSustainability_def js_round_def)
  from sustainability_years [of 50 60 10 10 20] computed show ?thesis
    by simp
qed

section \<open>Usage suitability and the water level\<close>

lemma usage_scores_antimono_nonzero:
  assumes "l1 \<noteq> 0" and "l2 \<noteq> 0" and "l1 \<le> l2"
  shows "us_score (agriculture (calculateUsageSuitability (Some l2) q))
           \<le> us_score (agriculture (calculateUsageSuitability (Some l1) q))
     \<and> us_score (domestic (calculateUsageSuitability (Some l2) q))
           \<le> us_score (domestic (calculateUsageSuitability (Some l1) q))
     \<and> us_score (industrial (calculateUsageSuitability (Some l2) q))
           \<le> us_score (industrial (calculateUsageSuitability (Some l1) q))"
proof -
  have "baseScore (Some l2) \<le> baseScore (Some l1)"
    using assms by (simp add: baseScore_def num_or_def)
  then have "min 100 (baseScore (Some l2) + c) \<le> min 100 (baseScore (Some l1) + c)" for c
    by (intro min.mono) simp_all
  then show ?thesis
    by (simp only: calculateUsageSuitability_def Let_def usage.simps usage_suitability.simps
        simp_thms)
qed

text \<open>
  C7. The suitability scores are meant never to increase with the water level. In the
  code the level 0 is replaced by the default 20, so with no quality data each of the
  three scores is 60 at level 0 and 80 at the deeper level 10.
\<close>

theorem usage_scores_rise_from_zero:
  "us_score (agriculture (calculateUsageSuitability (Some 0) None)) = 60
   \<and> us_score (agriculture (calculateUsageSuitability (Some 10) None)) = 80
   \<and> us_score (domestic (calculateUsageSuitability (Some 0) None)) = 60
   \<and> us_score (domestic (calculateUsageSuitability (Some 10) None)) = 80
   \<and> us_score (industrial (calculateUsageSuitability (Some 0) None)) = 60
   \<and> us_score (industrial (calculateUsageSuitability (Some 10) None)) = 80
   \<and> us_score (agriculture (calculateUsageSuitability (Some 0) None))
       < us_score (agriculture (calculateUsageSuitability (Some 10) None))"
  by (simp add: calculateUsageSuitability_def baseScore_def num_or_def quality_ph_def
      quality_tds_def undef_gt_def undef_lt_def)

section \<open>Range of the scores\<close>

text \<open>
  C8. For a feature vector whose water level, annual and monsoon rainfall and river
  distance are not negative, whose permeability encoding is between 1 and 3 and whose
  significance encoding is between 0 and 4, the linear, weighted and trend scores and the
  ensemble score all lie between 0 and 100.
\<close>

theorem scores_in_range:
  assumes "0 \<le> current_water_level f" and "0 \<le> annual_rainfall f"
    and "0 \<le> monsoon_rainfall f" and "0 \<le> nearest_river_distance f"
    and "1 \<le> soil_permeability f" and "soil_permeability f \<le> 3"
    and "0 \<le> trend_significance f" and "trend_significance f \<le> 4"
  shows "0 \<le> calculateLinearAvailability f \<and> calculateLinearAvailability f \<le> 100
    \<and> 0 \<le> calculateWeightedAvailability f \<and> calculateWeightedAvailability f \<le> 100
    \<and> 0 \<le> calculateTrendBasedAvailability f \<and> calculateTrendBasedAvailability f \<le> 100
    \<and> 0 \<le> ensemble f \<and> ensemble f \<le> 100"
proof -
  have lin: "0 \<le> calculateLinearAvailability f \<and> calculateLinearAvailability f \<le> 100"
    by (simp add: linear_closed_form)
  have tr: "0 \<le> calculateTrendBasedAvailability f \<and> calculateTrendBasedAvailability f \<le> 100"
    by (simp add: calculateTrendBasedAvailability_def Let_def)
  have w1: "0 \<le> max 0 (100 - current_water_level f * 3)"
    "max 0 (100 - current_water_level f * 3) \<le> 100"
    using assms(1) by simp_all
  have w2: "0 \<le> min 100 (annual_rainfall f / 10 + monsoon_rainfall f / 8)"
    "min 100 (annual_rainfall f / 10 + monsoon_rainfall f / 8) \<le> 100"
    using assms(2,3) by simp_all
  have w3: "0 \<le> max 0 (100 - nearest_river_distance f * 2)"
    "max 0 (100 - nearest_river_distance f * 2) \<le> 100"
    using assms(4) by simp_all
  define a where "a = max 0 (100 - current_water_level f * 3)"
  define b where "b = min 100 (annual_rainfall f / 10 + monsoon_rainfall f / 8)"
  define c where "c = max 0 (100 - nearest_river_distance f * 2)"
  have weighted: "calculateWeightedAvailability f
      = a * (4 / 10) + b * (25 / 100) + c * (2 / 10) + soil_permeability f * 25 * (15 / 100)"
    by (simp only: weighted_closed_form a_def b_def c_def)
  have bounds: "0 \<le> a" "a \<le> 100" "0 \<le> b" "b \<le> 100" "0 \<le> c" "c \<le> 100"
    using w1 w2 w3 by (simp_all only: a_def b_def c_def)
  have wt: "0 \<le> calculateWeightedAvailability f \<and> calculateWeightedAvailability f \<le> 100"
    unfolding weighted using bounds assms(5,6) by linarith
  have en: "0 \<le> ensemble f \<and> ensemble f \<le> 100"
    unfolding ensemble_def using lin tr wt by linarith
  show ?thesis
    using lin wt tr en by blast
qed

theorem scores_in_range_witness:
  "0 \<le> current_water_level (example_features (- 1) 2)
   \<and> 0 \<le> annual_rainfall (example_features (- 1) 2)
   \<and> 0 \<le> monsoon_rainfall (example_features (- 1) 2)
   \<and> 0 \<le> nearest_river_distance (example_features (- 1) 2)
   \<and> 1 \<le> soil_permeability (example_features (- 1) 2)
   \<and> soil_permeability (example_features (- 1) 2) \<le> 3
   \<and> 0 \<le> trend_significance (example_features (- 1) 2)
   \<and> trend_significance (example_features (- 1) 2) \<le> 4
   \<and> 0 \<le> ensemble (example_features (- 1) 2)
   \<and> ensemble (example_features (- 1) 2) \<le> 100
   \<and> calculateWeightedAvailability (example_features (- 1) 2) = 297 / 4"
proof -
  have h: "0 \<le> current_water_level (example_features (- 1) 2)"
    "0 \<le> annual_rainfall (example_features (- 1) 2)"
    "0 \<le> monsoon_rainfall (example_features (- 1) 2)"
    "0 \<le> nearest_river_distance (example_features (- 1) 2)"
    "1 \<le> soil_permeability (example_features (- 1) 2)"
    "soil_permeability (example_features (- 1) 2) \<le> 3"
    "0 \<le> trend_significance (example_features (- 1) 2)"
    "trend_significance (example_features (- 1) 2) \<le> 4"
    by (simp_all add: example_features_def)
  have w: "calculateWeightedAvailability (example_features (- 1) 2) = 297 / 4"
    by (simp add: example_scores)
  from scores_in_range [OF h] h w show ?thesis
    by simp
qed

section \<open>Peak and low month\<close>

lemma reduce_keeps_last_maximum:
  fixes g :: "nat \<Rightarrow> real"
  assumes "sorted_wrt (<) (a # xs)"
  shows "foldl (\<lambda>a b. if g a > g b then a else b) a xs \<in> set (a # xs)
     \<and> (\<forall>k \<in> set (a # xs).
           g k \<le> g (foldl (\<lambda>a b. if g a > g b then a else b) a xs)
           \<and> (g k = g (foldl (\<lambda>a b. if g a > g b then a else b) a xs)
                \<longrightarrow> k \<le> foldl (\<lambda>a b. if g a > g b then a else b) a xs))"
  using assms
proof (induction xs arbitrary: a)
  case Nil
  then show ?case by simp
next
  case (Cons b xs)
  let ?f = "\<lambda>a b. if g a > g b then a else b"
  show ?case
  proof (cases "g a > g b")
    case True
    from Cons.prems have "sorted_wrt (<) (a # xs)" by auto
    from Cons.IH [OF this] True show ?thesis by auto
  next
    case False
    from Cons.prems have srt: "sorted_wrt (<) (b # xs)" and ab: "a < b" by auto
    from Cons.IH [OF srt] have ih: "foldl ?f b xs \<in> set (b # xs)"
      "\<forall>k \<in> set (b # xs). g k \<le> g (foldl ?f b xs)
          \<and> (g k = g (foldl ?f b xs) \<longrightarrow> k \<le> foldl ?f b xs)"
      by blast+
    from srt ih(1) have "b \<le> foldl ?f b xs" by auto
    with ab have "a \<le> foldl ?f b xs" by simp
    moreover from ih(2) False have "g a \<le> g (foldl ?f b xs)" by force
    ultimately show ?thesis using ih False by auto
  qed
qed

lemma reduce_keeps_last_minimum:
  fixes g :: "nat \<Rightarrow> real"
  assumes "sorted_wrt (<) (a # xs)"
  shows "foldl (\<lambda>a b. if g a < g b then a else b) a xs \<in> set (a # xs)
     \<and> (\<forall>k \<in> set (a # xs).
           g (foldl (\<lambda>a b. if g a < g b then a else b) a xs) \<le> g k
           \<and> (g k = g (foldl (\<lambda>a b. if g a < g b then a else b) a xs)
                \<longrightarrow> k \<le> foldl (\<lambda>a b. if g a < g b then a else b) a xs))"
  using reduce_keeps_last_maximum [OF assms, of "\<lambda>k. - g k"] by simp

lemma month_keys_sorted: "sorted_wrt (<) (month_keys getMonth timestamps)"
  by (simp add: month_keys_def strict_sorted_iff)

lemma month_keys_set: "set (month_keys getMonth timestamps) = getMonth ` set timestamps"
  by (simp add: month_keys_def)

text \<open>
  C9, as the specification states it, fails on ties: the reducer keeps the accumulator
  only when its mean is strictly better, so the later month wins. For twelve monthly
  readings of 2023 in which February and March tie on the highest mean and April to
  December on the lowest, the peak month is March (2), not February (1), and the low
  month is December (11), not April (3).
\<close>

theorem seasonality_tie_counterexample:
  "detectSeasonality utc_month example_levels example_timestamps
     = Inr (Some \<lparr> monthly_means = [(0, 5), (1, 9), (2, 9), (3, 3), (4, 3), (5, 3), (6, 3),
                                      (7, 3), (8, 3), (9, 3), (10, 3), (11, 3)],
                   peakMonth = 2, lowMonth = 11 \<rparr>)"
  by code_simp

text \<open>
  C9, amended. For every series of at least 12 observations with one timestamp each,
  \<open>detectSeasonality\<close> returns a result whose peak month has the maximum monthly mean
  and whose low month has the minimum monthly mean among the months that occur, and
  among months that tie on that mean the highest month index (the last one met in the
  ascending iteration over the month keys) is chosen.
\<close>

theorem seasonality_peak_low:
  assumes "12 \<le> length data" and "length timestamps = length data"
  shows "\<exists>s. detectSeasonality getMonth data timestamps = Inr (Some s)
     \<and> peakMonth s \<in> getMonth ` set timestamps
     \<and> lowMonth s \<in> getMonth ` set timestamps
     \<and> (\<forall>k \<in> getMonth ` set timestamps.
           monthlyMeans getMonth data timestamps k
             \<le> monthlyMeans getMonth data timestamps (peakMonth s)
           \<and> (monthlyMeans getMonth data timestamps k
                = monthlyMeans getMonth data timestamps (peakMonth s) \<longrightarrow> k \<le> peakMonth s))
     \<and> (\<forall>k \<in> getMonth ` set timestamps.
           monthlyMeans getMonth data timestamps (lowMonth s)
             \<le> monthlyMeans getMonth data timestamps k
           \<and> (monthlyMeans getMonth data timestamps k
                = monthlyMeans getMonth data timestamps (lowMonth s) \<longrightarrow> k \<le> lowMonth s))"
proof -
  let ?mm = "monthlyMeans getMonth data timestamps"
  from assms have "timestamps \<noteq> []" by auto
  then have "month_keys getMonth timestamps \<noteq> []"
    using month_keys_set [of getMonth timestamps] by auto
  then obtain a xs where ks: "month_keys getMonth timestamps = a # xs"
    by (cases "month_keys getMonth timestamps") auto
  have srt: "sorted_wrt (<) (a # xs)"
    using month_keys_sorted [of getMonth timestamps] ks by simp
  have keys: "set (a # xs) = getMonth ` set timestamps"
    using month_keys_set [of getMonth timestamps] ks by simp
  define pk where "pk = foldl (\<lambda>a b. if ?mm a > ?mm b then a else b) a xs"
  define lo where "lo = foldl (\<lambda>a b. if ?mm a < ?mm b then a else b) a xs"
  have result: "detectSeasonality getMonth data timestamps
      = Inr (Some \<lparr> monthly_means = map (\<lambda>k. (k, ?mm k)) (a # xs),
                    peakMonth = pk, lowMonth = lo \<rparr>)"
    using assms(1) by (simp add: detectSeasonality_def Let_def ks js_reduce_def pk_def lo_def)
  have peak: "pk \<in> set (a # xs)
      \<and> (\<forall>k \<in> set (a # xs). ?mm k \<le> ?mm pk \<and> (?mm k = ?mm pk \<longrightarrow> k \<le> pk))"
    unfolding pk_def by (rule reduce_keeps_last_maximum [OF srt])
  have low: "lo \<in> set (a # xs)
      \<and> (\<forall>k \<in> set (a # xs). ?mm lo \<le> ?mm k \<and> (?mm k = ?mm lo \<longrightarrow> k \<le> lo))"
    unfolding lo_def by (rule reduce_keeps_last_minimum [OF srt])
  show ?thesis
    unfolding result using peak low unfolding keys by simp
qed

theorem seasonality_peak_low_witness:
  "12 \<le> length example_levels \<and> length example_timestamps = length example_levels
   \<and> (\<exists>s. detectSeasonality utc_month example_levels example_timestamps = Inr (Some s)
          \<and> peakMonth s \<in> utc_month ` set example_timestamps
          \<and> lowMonth s \<in> utc_month ` set example_timestamps)"
proof -
  have h: "12 \<le> length example_levels" "length example_timestamps = length example_levels"
    by (simp_all add: example_levels_def example_timestamps_def)
  from seasonality_peak_low [OF h, of utc_month] h show ?thesis
    by blast
qed

end
